theory Spec2Isabelle
  imports Main "HOL-Library.Sublist"
begin

section \<open>JavaScript values\<close>

text \<open>
  The request body of \<^verbatim>\<open>POST /transcribe\<close> is parsed JSON, and the transcript object of
  the speech-to-text client has nullable fields, so \<^verbatim>\<open>url\<close>, \<^verbatim>\<open>callbackUrl\<close>,
  \<^verbatim>\<open>transcript.text\<close> and \<^verbatim>\<open>transcript.error\<close> are JavaScript values and not always
  strings. The primitive values are modelled; numbers are the integers, printed in
  decimal, and arrays and objects are left out (they are truthy, like a non-empty
  string). A string is a list of
  code units written as \<^typ>\<open>char\<close>.
\<close>

datatype jsval = JUndefined | JNull | JBool bool | JNum int | JStr string

text \<open>\<^verbatim>\<open>if (v)\<close> and \<^verbatim>\<open>!v\<close>: the falsy values are undefined, null, false, 0 and ''.\<close>

fun truthy :: "jsval \<Rightarrow> bool" where
  "truthy JUndefined = False"
| "truthy JNull = False"
| "truthy (JBool b) = b"
| "truthy (JNum n) = (n \<noteq> 0)"
| "truthy (JStr s) = (s \<noteq> [])"

definition digit_char :: "nat \<Rightarrow> char" where
  "digit_char d = ''0123456789'' ! d"

fun show_nat :: "nat \<Rightarrow> string" where
  "show_nat n = (if n < 10 then [digit_char n] else show_nat (n div 10) @ [digit_char (n mod 10)])"

declare show_nat.simps [simp del]

definition show_int :: "int \<Rightarrow> string" where
  "show_int i = (if i < 0 then ''-'' @ show_nat (nat (- i)) else show_nat (nat i))"

text \<open>The conversion a template literal \<^verbatim>\<open>`${v}`\<close> applies to a value.\<close>

fun toStr :: "jsval \<Rightarrow> string" where
  "toStr JUndefined = ''undefined''"
| "toStr JNull = ''null''"
| "toStr (JBool b) = (if b then ''true'' else ''false'')"
| "toStr (JNum n) = show_int n"
| "toStr (JStr s) = s"

text \<open>\<^verbatim>\<open>f.endsWith(s)\<close>\<close>

definition endsWith :: "string \<Rightarrow> string \<Rightarrow> bool" where
  "endsWith f s = (length s \<le> length f \<and> drop (length f - length s) f = s)"

section \<open>Job records and the registry\<close>

text \<open>
  A job record is a JavaScript object: every key may be absent (\<open>None\<close>). The object
  literals of \<^verbatim>\<open>src/index.js\<close> use the nine keys below.
\<close>

record job =
  jobId :: "string option"
  url :: "jsval option"
  status :: "string option"
  createdAt :: "string option"
  startedAt :: "string option"
  transcript :: "jsval option"
  completedAt :: "string option"
  error :: "string option"
  failedAt :: "string option"

text \<open>The empty object \<^verbatim>\<open>{}\<close>.\<close>

definition empty_obj :: job where
  "empty_obj = \<lparr>jobId = None, url = None, status = None, createdAt = None, startedAt = None,
     transcript = None, completedAt = None, error = None, failedAt = None\<rparr>"

text \<open>
  The spread \<^verbatim>\<open>{...jobs.get(jobId)}\<close>: \<^verbatim>\<open>Map.get\<close> gives \<^verbatim>\<open>undefined\<close> for an
  absent key, and spreading \<^verbatim>\<open>undefined\<close> copies no key.
\<close>

fun spread :: "job option \<Rightarrow> job" where
  "spread None = empty_obj"
| "spread (Some r) = r"

text \<open>The transcript object the speech-to-text client resolves with.\<close>

record transcript_obj =
  t_status :: string
  t_text :: jsval
  t_error :: jsval

datatype body = ErrorBody string | QueuedBody string string jsval string | JobBody job

datatype response = Resp nat body

text \<open>
  What the process does besides changing the registry, in the order it happens: the
  registry writes themselves (kept as a history), the calls of external capabilities
  with their arguments, console output, timers and HTTP responses.
\<close>

datatype event =
    Set string job
  | Delete string
  | Mkdir string
  | Exec string nat
  | Access string
  | Readdir string
  | Transcribe string
  | Fetch jsval job
  | Rm string
  | SetTimeout nat string
  | ConsoleLog string
  | ConsoleError string string
  | Respond response

text \<open>
  The outcomes of everything the code does not decide itself. A rejected promise is
  \<open>Inl\<close> of the rejection's \<^verbatim>\<open>message\<close>.
\<close>

record env =
  date_now :: nat
  random36 :: string
  iso_created :: string
  iso_started :: string
  iso_completed :: string
  iso_failed :: string
  fs_mkdir :: "string \<Rightarrow> string + unit"
  execAsync :: "string \<Rightarrow> nat \<Rightarrow> string + unit"
  fs_access :: "string \<Rightarrow> bool"
  fs_readdir :: "string \<Rightarrow> string + string list"
  aai_transcribe :: "string \<Rightarrow> string + transcript_obj"
  fetch :: "jsval \<Rightarrow> job \<Rightarrow> string + unit"
  fs_rm :: "string \<Rightarrow> string + unit"

text \<open>
  The process state: the registry \<^verbatim>\<open>const jobs = new Map()\<close>, the pending one-shot
  timers (milliseconds left, and the id their callback deletes) and the history.
\<close>

record state =
  jobs :: "string \<rightharpoonup> job"
  timers :: "(nat \<times> string) list"
  trace :: "event list"

definition effect :: "event \<Rightarrow> state \<Rightarrow> state" where
  "effect e st = st\<lparr>trace := trace st @ [e]\<rparr>"

definition jobs_set :: "string \<Rightarrow> job \<Rightarrow> state \<Rightarrow> state" where
  "jobs_set k r st = st\<lparr>jobs := (jobs st)(k \<mapsto> r), trace := trace st @ [Set k r]\<rparr>"

definition jobs_delete :: "string \<Rightarrow> state \<Rightarrow> state" where
  "jobs_delete k st = st\<lparr>jobs := (jobs st)(k := None), trace := trace st @ [Delete k]\<rparr>"

text \<open>
  The update idiom of the pipeline, \<^verbatim>\<open>jobs.set(jobId, {...jobs.get(jobId), k: v, ...})\<close>:
  \<open>patch\<close> sets the keys written after the spread.
\<close>

definition update_job :: "string \<Rightarrow> (job \<Rightarrow> job) \<Rightarrow> state \<Rightarrow> state" where
  "update_job k patch st = jobs_set k (patch (spread (jobs st k))) st"

section \<open>The pipeline\<close>

text \<open>
  \<^verbatim>\<open>path.join(a, b)\<close> for the paths the pipeline builds. The job id is made of
  \<^verbatim>\<open>job_\<close>, digits, \<^verbatim>\<open>_\<close> and base-36 digits, so the normalisation \<^verbatim>\<open>path.join\<close>
  applies changes nothing.
\<close>

definition path_join :: "string \<Rightarrow> string \<Rightarrow> string" where
  "path_join a b = a @ ''/'' @ b"

definition tempDir :: "string \<Rightarrow> string" where
  "tempDir jid = ''/tmp/transcribe_'' @ jid"

definition audioPath :: "string \<Rightarrow> string" where
  "audioPath jid = path_join (tempDir jid) ''audio.mp3''"

definition dquote :: string where
  "dquote = [CHR 0x22]"

definition ytdlp_command :: "string \<Rightarrow> jsval \<Rightarrow> string" where
  "ytdlp_command jid u =
     ''yt-dlp -x --audio-format mp3 --audio-quality 0 -o '' @ dquote
       @ path_join (tempDir jid) ''audio.%(ext)s'' @ dquote @ '' '' @ dquote @ toStr u @ dquote"

definition is_audio :: "string \<Rightarrow> bool" where
  "is_audio f = (endsWith f ''.mp3'' \<or> endsWith f ''.m4a'' \<or> endsWith f ''.wav'')"

definition tag :: "string \<Rightarrow> string" where
  "tag jid = ''['' @ jid @ '']''"

text \<open>
  Lines 97 to 116: the download tool, then the check of the declared output path and
  the scan of the scratch directory. \<open>Inl m\<close> is a thrown \<^verbatim>\<open>Error\<close> with message
  \<open>m\<close>; a time-out of the tool is a rejection of \<^verbatim>\<open>execAsync\<close> like a non-zero exit.
\<close>

definition extract_audio :: "env \<Rightarrow> string \<Rightarrow> jsval \<Rightarrow> state \<Rightarrow> (string + unit) \<times> state" where
  "extract_audio e jid u st =
     (let st1 = effect (Exec (ytdlp_command jid u) 300000) st in
      case execAsync e (ytdlp_command jid u) 300000 of
        Inl m \<Rightarrow> (Inl (''Download failed: '' @ m), st1)
      | Inr _ \<Rightarrow>
          (let st2 = effect (Access (audioPath jid)) st1 in
           if fs_access e (audioPath jid) then (Inr (), st2)
           else
             (let st3 = effect (Readdir (tempDir jid)) st2 in
              case fs_readdir e (tempDir jid) of
                Inl m \<Rightarrow> (Inl m, st3)
              | Inr files \<Rightarrow>
                  (case find is_audio files of
                     None \<Rightarrow>
                       (Inl ''Audio file was not created. Video may be private or unavailable.'', st3)
                   | Some _ \<Rightarrow> (Inr (), st3)))))"

text \<open>
  \<^verbatim>\<open>transcript.text.length\<close> inside the template literal of line 146: reading a
  property of \<^verbatim>\<open>null\<close> or \<^verbatim>\<open>undefined\<close> throws a \<^verbatim>\<open>TypeError\<close> (the message is
  V8's), a string has its length, and booleans and numbers have no such property.
\<close>

fun text_length :: "jsval \<Rightarrow> string + string" where
  "text_length JUndefined = Inl ''Cannot read properties of undefined (reading 'length')''"
| "text_length JNull = Inl ''Cannot read properties of null (reading 'length')''"
| "text_length (JStr s) = Inr (show_nat (length s))"
| "text_length (JBool _) = Inr ''undefined''"
| "text_length (JNum _) = Inr ''undefined''"

text \<open>Lines 149 to 160: the callback on the success path.\<close>

definition notify_result :: "env \<Rightarrow> string \<Rightarrow> jsval \<Rightarrow> job \<Rightarrow> state \<Rightarrow> state" where
  "notify_result e jid cb r st =
     (if truthy cb then
        (let st1 = effect (Fetch cb r) st in
         case fetch e cb r of
           Inr _ \<Rightarrow> effect (ConsoleLog (tag jid @ '' Callback sent to '' @ toStr cb)) st1
         | Inl m \<Rightarrow> effect (ConsoleError (tag jid @ '' Callback failed:'') m) st1)
      else st)"

text \<open>Lines 176 to 186: the callback on the failure path.\<close>

definition notify_error :: "env \<Rightarrow> string \<Rightarrow> jsval \<Rightarrow> job \<Rightarrow> state \<Rightarrow> state" where
  "notify_error e jid cb r st =
     (if truthy cb then
        (let st1 = effect (Fetch cb r) st in
         case fetch e cb r of
           Inr _ \<Rightarrow> st1
         | Inl m \<Rightarrow> effect (ConsoleError (tag jid @ '' Error callback failed:'') m) st1)
      else st)"

text \<open>
  Lines 84 to 160, the body of \<^verbatim>\<open>try\<close>: \<open>Some m\<close> is an \<^verbatim>\<open>Error\<close> with message
  \<open>m\<close> thrown to the \<^verbatim>\<open>catch\<close>, \<open>None\<close> is normal completion.
\<close>

definition try_block :: "env \<Rightarrow> string \<Rightarrow> jsval \<Rightarrow> jsval \<Rightarrow> state \<Rightarrow> string option \<times> state" where
  "try_block e jid u cb st =
     (let st1 = effect (Mkdir (tempDir jid)) st in
      case fs_mkdir e (tempDir jid) of
        Inl m \<Rightarrow> (Some m, st1)
      | Inr _ \<Rightarrow>
          (let st2 = effect (ConsoleLog (tag jid @ '' Downloading: '' @ toStr u)) st1;
               st3 = update_job jid (\<lambda>r. r\<lparr>status := Some ''downloading''\<rparr>) st2 in
           case extract_audio e jid u st3 of
             (Inl m, st4) \<Rightarrow> (Some m, st4)
           | (Inr _, st4) \<Rightarrow>
               (let st5 = effect (ConsoleLog (tag jid @ '' Transcribing with AssemblyAI...'')) st4;
                    st6 = update_job jid (\<lambda>r. r\<lparr>status := Some ''transcribing''\<rparr>) st5;
                    st7 = effect (Transcribe (audioPath jid)) st6 in
                case aai_transcribe e (audioPath jid) of
                  Inl m \<Rightarrow> (Some m, st7)
                | Inr t \<Rightarrow>
                    if t_status t = ''error''
                    then (Some (''AssemblyAI error: '' @ toStr (t_error t)), st7)
                    else
                      (let result = empty_obj\<lparr>jobId := Some jid, url := Some u,
                             transcript := Some (t_text t), status := Some ''completed'',
                             completedAt := Some (iso_completed e)\<rparr>;
                           st8 = jobs_set jid result st7 in
                       case text_length (t_text t) of
                         Inl m \<Rightarrow> (Some m, st8)
                       | Inr n \<Rightarrow>
                           (None,
                            notify_result e jid cb result
                              (effect (ConsoleLog (tag jid @ '' Success: '' @ n @ '' chars'')) st8))))))"

text \<open>Lines 162 to 186, the \<^verbatim>\<open>catch\<close>.\<close>

definition catch_block :: "env \<Rightarrow> string \<Rightarrow> jsval \<Rightarrow> jsval \<Rightarrow> string \<Rightarrow> state \<Rightarrow> state" where
  "catch_block e jid u cb m st =
     (let st1 = effect (ConsoleError (tag jid @ '' Error:'') m) st;
          errorResult = empty_obj\<lparr>jobId := Some jid, url := Some u, error := Some m,
            status := Some ''failed'', failedAt := Some (iso_failed e)\<rparr>;
          st2 = jobs_set jid errorResult st1
      in notify_error e jid cb errorResult st2)"

text \<open>
  Lines 187 to 199, the \<^verbatim>\<open>finally\<close>: the scratch directory is removed (a rejection is
  ignored) and the one-shot timer that deletes the record is set.
\<close>

definition finally_block :: "env \<Rightarrow> string \<Rightarrow> state \<Rightarrow> state" where
  "finally_block e jid st =
     (let st1 = effect (Rm (tempDir jid)) st;
          st2 = effect (SetTimeout (60 * 60 * 1000) jid) st1
      in st2\<lparr>timers := timers st2 @ [(60 * 60 * 1000, jid)]\<rparr>)"

definition processTranscription :: "env \<Rightarrow> string \<Rightarrow> jsval \<Rightarrow> jsval \<Rightarrow> state \<Rightarrow> state" where
  "processTranscription e jid u cb st =
     (let st1 = update_job jid
                  (\<lambda>r. r\<lparr>status := Some ''processing'', startedAt := Some (iso_started e)\<rparr>) st in
      case try_block e jid u cb st1 of
        (None, st2) \<Rightarrow> finally_block e jid st2
      | (Some m, st2) \<Rightarrow> finally_block e jid (catch_block e jid u cb m st2))"

section \<open>The request handlers\<close>

record request_body =
  b_url :: jsval
  b_callbackUrl :: jsval

text \<open>
  \<^verbatim>\<open>`job_${Date.now()}_${Math.random().toString(36).substr(2, 9)}`\<close>
\<close>

definition new_jobId :: "env \<Rightarrow> string" where
  "new_jobId e = ''job_'' @ show_nat (date_now e) @ ''_'' @ take 9 (drop 2 (random36 e))"

text \<open>
  \<^verbatim>\<open>app.post('/transcribe')\<close>. The handler responds and then calls
  \<^verbatim>\<open>processTranscription\<close> without awaiting it; the model runs the detached pipeline
  to its end.
\<close>

definition post_transcribe :: "env \<Rightarrow> request_body \<Rightarrow> state \<Rightarrow> state" where
  "post_transcribe e b st =
     (if \<not> truthy (b_url b) then effect (Respond (Resp 400 (ErrorBody ''URL required''))) st
      else
        (let jid = new_jobId e;
             st1 = jobs_set jid (empty_obj\<lparr>jobId := Some jid, url := Some (b_url b),
                     status := Some ''queued'', createdAt := Some (iso_created e)\<rparr>) st;
             st2 = effect (Respond (Resp 200
                     (QueuedBody ''queued'' jid (b_url b) ''Job queued for processing''))) st1
         in processTranscription e jid (b_url b) (b_callbackUrl b) st2))"

text \<open>\<^verbatim>\<open>app.get('/job/:jobId')\<close>\<close>

definition get_job :: "state \<Rightarrow> string \<Rightarrow> response" where
  "get_job st jid =
     (case jobs st jid of
        None \<Rightarrow> Resp 404 (ErrorBody ''Job not found'')
      | Some j \<Rightarrow> Resp 200 (JobBody j))"

text \<open>
  Time passing: after \<open>d\<close> milliseconds every timer with at most \<open>d\<close> milliseconds left
  has run its callback \<^verbatim>\<open>jobs.delete(jobId)\<close>, and the others have \<open>d\<close> less to wait.
\<close>

definition elapse :: "nat \<Rightarrow> state \<Rightarrow> state" where
  "elapse d st =
     foldl (\<lambda>s (t, k). if t \<le> d then jobs_delete k s else s)
       (st\<lparr>timers := map (\<lambda>(t, k). (t - d, k)) (filter (\<lambda>(t, k). d < t) (timers st))\<rparr>)
       (timers st)"

section \<open>Histories\<close>

text \<open>
  The events a run added to the history, and what is read off them: the records written
  under a key (oldest first) and the calls of the external capabilities.
\<close>

definition emitted :: "state \<Rightarrow> state \<Rightarrow> event list" where
  "emitted st st' = drop (length (trace st)) (trace st')"

fun written :: "string \<Rightarrow> event \<Rightarrow> job list" where
  "written k (Set k' r) = (if k' = k then [r] else [])"
| "written k _ = []"

definition writes :: "string \<Rightarrow> event list \<Rightarrow> job list" where
  "writes k evs = concat (map (written k) evs)"

fun is_Transcribe :: "event \<Rightarrow> bool" where
  "is_Transcribe (Transcribe _) = True"
| "is_Transcribe _ = False"

fun is_Fetch :: "event \<Rightarrow> bool" where
  "is_Fetch (Fetch _ _) = True"
| "is_Fetch _ = False"

fun is_Readdir :: "event \<Rightarrow> bool" where
  "is_Readdir (Readdir _) = True"
| "is_Readdir _ = False"

section \<open>Summaries of a run\<close>

text \<open>
  The lemmas of the next section reduce the pipeline to these: the outcome of the
  extraction step, the two terminal records, and the records a run writes under its
  job's key, all as functions of the environment and of the record found at the start.
\<close>

definition extract_outcome :: "env \<Rightarrow> string \<Rightarrow> jsval \<Rightarrow> string + unit" where
  "extract_outcome e jid u =
     (case execAsync e (ytdlp_command jid u) 300000 of
        Inl m \<Rightarrow> Inl (''Download failed: '' @ m)
      | Inr _ \<Rightarrow>
          if fs_access e (audioPath jid) then Inr ()
          else (case fs_readdir e (tempDir jid) of
                  Inl m \<Rightarrow> Inl m
                | Inr files \<Rightarrow>
                    if \<exists>f \<in> set files. is_audio f then Inr ()
                    else Inl ''Audio file was not created. Video may be private or unavailable.''))"

definition completed_record :: "env \<Rightarrow> string \<Rightarrow> jsval \<Rightarrow> transcript_obj \<Rightarrow> job" where
  "completed_record e jid u t = empty_obj\<lparr>jobId := Some jid, url := Some u,
     transcript := Some (t_text t), status := Some ''completed'',
     completedAt := Some (iso_completed e)\<rparr>"

definition failed_record :: "env \<Rightarrow> string \<Rightarrow> jsval \<Rightarrow> string \<Rightarrow> job" where
  "failed_record e jid u m = empty_obj\<lparr>jobId := Some jid, url := Some u, error := Some m,
     status := Some ''failed'', failedAt := Some (iso_failed e)\<rparr>"

text \<open>
  The records the \<^verbatim>\<open>try\<close> block writes when it starts at record \<open>r\<close>, and the message
  it throws, if any.
\<close>

definition try_run :: "env \<Rightarrow> string \<Rightarrow> jsval \<Rightarrow> job \<Rightarrow> job list \<times> string option" where
  "try_run e jid u r =
     (case fs_mkdir e (tempDir jid) of
        Inl m \<Rightarrow> ([], Some m)
      | Inr _ \<Rightarrow>
          (case extract_outcome e jid u of
             Inl m \<Rightarrow> ([r\<lparr>status := Some ''downloading''\<rparr>], Some m)
           | Inr _ \<Rightarrow>
               (case aai_transcribe e (audioPath jid) of
                  Inl m \<Rightarrow>
                    ([r\<lparr>status := Some ''downloading''\<rparr>,
                      r\<lparr>status := Some ''transcribing''\<rparr>], Some m)
                | Inr t \<Rightarrow>
                    if t_status t = ''error''
                    then ([r\<lparr>status := Some ''downloading''\<rparr>,
                           r\<lparr>status := Some ''transcribing''\<rparr>],
                          Some (''AssemblyAI error: '' @ toStr (t_error t)))
                    else ([r\<lparr>status := Some ''downloading''\<rparr>,
                           r\<lparr>status := Some ''transcribing''\<rparr>,
                           completed_record e jid u t],
                          (case text_length (t_text t) of Inl m \<Rightarrow> Some m | Inr _ \<Rightarrow> None)))))"

text \<open>The records \<^verbatim>\<open>processTranscription\<close> writes when it finds record \<open>r\<close>.\<close>

definition run_records :: "env \<Rightarrow> string \<Rightarrow> jsval \<Rightarrow> job \<Rightarrow> job list" where
  "run_records e jid u r =
     (let p = r\<lparr>status := Some ''processing'', startedAt := Some (iso_started e)\<rparr> in
      p # fst (try_run e jid u p) @
        (case snd (try_run e jid u p) of None \<Rightarrow> [] | Some m \<Rightarrow> [failed_record e jid u m]))"

definition queued_record :: "env \<Rightarrow> jsval \<Rightarrow> job" where
  "queued_record e u = empty_obj\<lparr>jobId := Some (new_jobId e), url := Some u,
     status := Some ''queued'', createdAt := Some (iso_created e)\<rparr>"

section \<open>Sample inputs\<close>

text \<open>
  An environment in which every step succeeds, a request without a callback, and the
  state of a process that has just started.
\<close>

definition env_ok :: env where
  "env_ok = \<lparr>date_now = 1700000000000, random36 = ''0.k3j9x2m1qzr'',
     iso_created = ''2023-11-14T22:13:20.000Z'', iso_started = ''2023-11-14T22:13:20.001Z'',
     iso_completed = ''2023-11-14T22:14:05.250Z'', iso_failed = ''2023-11-14T22:14:05.251Z'',
     fs_mkdir = (\<lambda>_. Inr ()), execAsync = (\<lambda>_ _. Inr ()), fs_access = (\<lambda>_. True),
     fs_readdir = (\<lambda>_. Inr [''audio.mp3'']),
     aai_transcribe = (\<lambda>_. Inr \<lparr>t_status = ''completed'', t_text = JStr ''hello world'',
        t_error = JUndefined\<rparr>),
     fetch = (\<lambda>_ _. Inr ()), fs_rm = (\<lambda>_. Inr ())\<rparr>"

text \<open>The provider call is rejected (a transport error).\<close>

definition env_rejected :: env where
  "env_rejected = env_ok\<lparr>aai_transcribe := (\<lambda>_. Inl ''socket hang up'')\<rparr>"

text \<open>The provider completes with \<^verbatim>\<open>text: null\<close>, which its type allows.\<close>

definition env_null_text :: env where
  "env_null_text = env_ok\<lparr>aai_transcribe :=
     (\<lambda>_. Inr \<lparr>t_status = ''completed'', t_text = JNull, t_error = JUndefined\<rparr>)\<rparr>"

text \<open>The download tool exits with a non-zero code.\<close>

definition env_exec_fails :: env where
  "env_exec_fails = env_ok\<lparr>execAsync :=
     (\<lambda>_ _. Inl ''Command failed: yt-dlp exited with code 1'')\<rparr>"

text \<open>The tool succeeds but wrote \<^verbatim>\<open>audio.m4a\<close>, not the declared \<^verbatim>\<open>audio.mp3\<close>.\<close>

definition env_m4a :: env where
  "env_m4a = env_ok\<lparr>fs_access := (\<lambda>_. False), fs_readdir := (\<lambda>_. Inr [''audio.m4a''])\<rparr>"

text \<open>The tool succeeds but left no audio file.\<close>

definition env_no_audio :: env where
  "env_no_audio = env_ok\<lparr>fs_access := (\<lambda>_. False), fs_readdir := (\<lambda>_. Inr [''video.webm''])\<rparr>"

definition body_cb :: request_body where
  "body_cb = \<lparr>b_url = JStr ''https://example.com/video'',
     b_callbackUrl = JStr ''https://hooks.example.com/done''\<rparr>"

definition body_ok :: request_body where
  "body_ok = \<lparr>b_url = JStr ''https://example.com/video'', b_callbackUrl = JUndefined\<rparr>"

definition st_init :: state where
  "st_init = \<lparr>jobs = Map.empty, timers = [], trace = []\<rparr>"

section \<open>How each block changes the state\<close>

lemma writes_append [simp]: "writes k (xs @ ys) = writes k xs @ writes k ys"
  by (simp add: writes_def)

lemma writes_Nil [simp]: "writes k [] = []"
  by (simp add: writes_def)

lemma writes_Cons [simp]: "writes k (x # xs) = written k x @ writes k xs"
  by (simp add: writes_def)

lemma effect_proj [simp]:
  "jobs (effect ev st) = jobs st"
  "timers (effect ev st) = timers st"
  "trace (effect ev st) = trace st @ [ev]"
  by (simp_all add: effect_def)

lemma jobs_set_proj [simp]:
  "jobs (jobs_set k r st) = (jobs st)(k \<mapsto> r)"
  "timers (jobs_set k r st) = timers st"
  "trace (jobs_set k r st) = trace st @ [Set k r]"
  by (simp_all add: jobs_set_def)

lemma jobs_delete_proj [simp]:
  "jobs (jobs_delete k st) = (jobs st)(k := None)"
  "timers (jobs_delete k st) = timers st"
  "trace (jobs_delete k st) = trace st @ [Delete k]"
  by (simp_all add: jobs_delete_def)

lemma text_length_Inl_iff:
  "text_length v = Inl m \<longleftrightarrow>
     (v = JUndefined \<and> m = ''Cannot read properties of undefined (reading 'length')'') \<or>
     (v = JNull \<and> m = ''Cannot read properties of null (reading 'length')'')"
  by (cases v) auto

lemma text_length_Inr_iff:
  "(\<exists>n. text_length v = Inr n) \<longleftrightarrow> v \<noteq> JUndefined \<and> v \<noteq> JNull"
  by (cases v) auto

lemma find_Some_ex: "(\<exists>y. find P xs = Some y) \<longleftrightarrow> (\<exists>x \<in> set xs. P x)"
  using find_None_iff [of P xs] by (cases "find P xs") auto

lemma extract_audio_outcome [simp]:
  "fst (extract_audio e jid u st) = extract_outcome e jid u"
  using find_Some_ex [of is_audio]
  by (auto simp: extract_audio_def extract_outcome_def Let_def find_None_iff
      split: sum.split option.split)

lemma extract_audio_proj [simp]:
  "jobs (snd (extract_audio e jid u st)) = jobs st"
  "timers (snd (extract_audio e jid u st)) = timers st"
  "writes k (trace (snd (extract_audio e jid u st))) = writes k (trace st)"
  "filter is_Transcribe (trace (snd (extract_audio e jid u st))) = filter is_Transcribe (trace st)"
  "filter is_Fetch (trace (snd (extract_audio e jid u st))) = filter is_Fetch (trace st)"
  by (simp_all add: extract_audio_def Let_def split: sum.split option.split)

lemma extract_audio_prefix [simp]:
  "prefix t (trace st) \<Longrightarrow> prefix t (trace (snd (extract_audio e jid u st)))"
  by (simp add: extract_audio_def Let_def split: sum.split option.split)

lemma notify_result_proj [simp]:
  "jobs (notify_result e jid cb r st) = jobs st"
  "timers (notify_result e jid cb r st) = timers st"
  "writes k (trace (notify_result e jid cb r st)) = writes k (trace st)"
  "filter is_Transcribe (trace (notify_result e jid cb r st)) = filter is_Transcribe (trace st)"
  "filter is_Fetch (trace (notify_result e jid cb r st)) =
     filter is_Fetch (trace st) @ (if truthy cb then [Fetch cb r] else [])"
  by (simp_all add: notify_result_def Let_def split: sum.split)

lemma notify_result_prefix [simp]:
  "prefix t (trace st) \<Longrightarrow> prefix t (trace (notify_result e jid cb r st))"
  by (simp add: notify_result_def Let_def split: sum.split)

lemma notify_error_proj [simp]:
  "jobs (notify_error e jid cb r st) = jobs st"
  "timers (notify_error e jid cb r st) = timers st"
  "writes k (trace (notify_error e jid cb r st)) = writes k (trace st)"
  "filter is_Transcribe (trace (notify_error e jid cb r st)) = filter is_Transcribe (trace st)"
  "filter is_Fetch (trace (notify_error e jid cb r st)) =
     filter is_Fetch (trace st) @ (if truthy cb then [Fetch cb r] else [])"
  by (simp_all add: notify_error_def Let_def split: sum.split)

lemma notify_error_prefix [simp]:
  "prefix t (trace st) \<Longrightarrow> prefix t (trace (notify_error e jid cb r st))"
  by (simp add: notify_error_def Let_def split: sum.split)

lemma catch_block_proj [simp]:
  "jobs (catch_block e jid u cb m st) =
     (jobs st)(jid \<mapsto> empty_obj\<lparr>jobId := Some jid, url := Some u, error := Some m,
        status := Some ''failed'', failedAt := Some (iso_failed e)\<rparr>)"
  "timers (catch_block e jid u cb m st) = timers st"
  "writes k (trace (catch_block e jid u cb m st)) =
     writes k (trace st) @
       (if jid = k then [empty_obj\<lparr>jobId := Some jid, url := Some u, error := Some m,
          status := Some ''failed'', failedAt := Some (iso_failed e)\<rparr>] else [])"
  "filter is_Transcribe (trace (catch_block e jid u cb m st)) = filter is_Transcribe (trace st)"
  "filter is_Fetch (trace (catch_block e jid u cb m st)) =
     filter is_Fetch (trace st) @
       (if truthy cb then [Fetch cb (empty_obj\<lparr>jobId := Some jid, url := Some u, error := Some m,
          status := Some ''failed'', failedAt := Some (iso_failed e)\<rparr>)] else [])"
  by (simp_all add: catch_block_def Let_def)

lemma catch_block_prefix [simp]:
  "prefix t (trace st) \<Longrightarrow> prefix t (trace (catch_block e jid u cb m st))"
  by (simp add: catch_block_def Let_def)

lemma finally_block_proj [simp]:
  "jobs (finally_block e jid st) = jobs st"
  "timers (finally_block e jid st) = timers st @ [(60 * 60 * 1000, jid)]"
  "trace (finally_block e jid st) =
     trace st @ [Rm (tempDir jid), SetTimeout (60 * 60 * 1000) jid]"
  by (simp_all add: finally_block_def Let_def)

lemma try_block_prefix [simp]:
  "prefix t (trace st) \<Longrightarrow> prefix t (trace (snd (try_block e jid u cb st)))"
  by (simp add: try_block_def update_job_def Let_def case_prod_beta
      split: sum.split option.split)

lemma try_block_fst:
  "fst (try_block e jid u cb st) = snd (try_run e jid u (spread (jobs st jid)))"
  by (simp add: try_block_def try_run_def update_job_def Let_def case_prod_beta
      split: sum.split)

lemma try_block_writes:
  "writes k (trace (snd (try_block e jid u cb st))) =
     writes k (trace st) @ (if jid = k then fst (try_run e jid u (spread (jobs st jid))) else [])"
  by (simp add: try_block_def try_run_def update_job_def Let_def case_prod_beta
      completed_record_def split: sum.split)

lemma try_block_jobs:
  "jobs (snd (try_block e jid u cb st)) =
     (case fst (try_run e jid u (spread (jobs st jid))) of
        [] \<Rightarrow> jobs st
      | r # rs \<Rightarrow> (jobs st)(jid \<mapsto> last (r # rs)))"
  by (simp add: try_block_def try_run_def update_job_def Let_def case_prod_beta
      completed_record_def split: sum.split)

lemma try_block_timers:
  "timers (snd (try_block e jid u cb st)) = timers st"
  by (simp add: try_block_def update_job_def Let_def case_prod_beta split: sum.split)

lemma try_block_fetch:
  "filter is_Fetch (trace (snd (try_block e jid u cb st))) =
     filter is_Fetch (trace st) @
       (if truthy cb \<and> snd (try_run e jid u (spread (jobs st jid))) = None
        then [Fetch cb (last (fst (try_run e jid u (spread (jobs st jid)))))] else [])"
  by (simp add: try_block_def try_run_def update_job_def Let_def case_prod_beta
      completed_record_def split: sum.split)

lemma try_block_transcribe:
  "filter is_Transcribe (trace (snd (try_block e jid u cb st))) =
     filter is_Transcribe (trace st) @
       (if fs_mkdir e (tempDir jid) = Inr () \<and> extract_outcome e jid u = Inr ()
        then [Transcribe (audioPath jid)] else [])"
  by (simp add: try_block_def update_job_def Let_def case_prod_beta split: sum.split)

lemma try_run_None:
  "snd (try_run e jid u r) = None \<Longrightarrow> fst (try_run e jid u r) \<noteq> []"
  by (simp add: try_run_def split: sum.splits if_splits)

lemmas try_block_proj = try_block_fst try_block_writes try_block_jobs try_block_timers
  try_block_fetch try_block_transcribe

lemma processTranscription_writes:
  "writes k (trace (processTranscription e jid u cb st)) =
     writes k (trace st) @ (if jid = k then run_records e jid u (spread (jobs st jid)) else [])"
  by (simp add: processTranscription_def run_records_def update_job_def Let_def case_prod_beta
      try_block_proj failed_record_def split: option.split)

lemma processTranscription_jobs:
  "jobs (processTranscription e jid u cb st) =
     (jobs st)(jid \<mapsto> last (run_records e jid u (spread (jobs st jid))))"
  by (simp add: processTranscription_def run_records_def update_job_def Let_def case_prod_beta
      try_block_proj failed_record_def split: option.split list.split)

lemma processTranscription_timers:
  "timers (processTranscription e jid u cb st) = timers st @ [(60 * 60 * 1000, jid)]"
  by (simp add: processTranscription_def update_job_def Let_def case_prod_beta
      try_block_proj split: option.split)

lemma processTranscription_fetch:
  "filter is_Fetch (trace (processTranscription e jid u cb st)) =
     filter is_Fetch (trace st) @
       (if truthy cb then [Fetch cb (last (run_records e jid u (spread (jobs st jid))))] else [])"
  by (simp add: processTranscription_def run_records_def update_job_def Let_def case_prod_beta
      try_block_proj failed_record_def try_run_None split: option.split)

lemma processTranscription_transcribe:
  "filter is_Transcribe (trace (processTranscription e jid u cb st)) =
     filter is_Transcribe (trace st) @
       (if fs_mkdir e (tempDir jid) = Inr () \<and> extract_outcome e jid u = Inr ()
        then [Transcribe (audioPath jid)] else [])"
  by (simp add: processTranscription_def update_job_def Let_def case_prod_beta
      try_block_proj split: option.split)

lemma processTranscription_prefix [simp]:
  "prefix t (trace st) \<Longrightarrow> prefix t (trace (processTranscription e jid u cb st))"
  by (simp add: processTranscription_def update_job_def Let_def case_prod_beta
      split: option.split)

lemma post_transcribe_prefix [simp]:
  "prefix t (trace st) \<Longrightarrow> prefix t (trace (post_transcribe e b st))"
  by (simp add: post_transcribe_def Let_def)

lemma post_transcribe_writes:
  "truthy (b_url b) \<Longrightarrow>
   writes k (trace (post_transcribe e b st)) =
     writes k (trace st) @
       (if new_jobId e = k
        then queued_record e (b_url b)
               # run_records e (new_jobId e) (b_url b) (queued_record e (b_url b))
        else [])"
  by (simp add: post_transcribe_def Let_def processTranscription_writes queued_record_def)

lemma post_transcribe_jobs:
  "truthy (b_url b) \<Longrightarrow>
   jobs (post_transcribe e b st) =
     (jobs st)(new_jobId e \<mapsto>
        last (run_records e (new_jobId e) (b_url b) (queued_record e (b_url b))))"
  by (simp add: post_transcribe_def Let_def processTranscription_jobs queued_record_def)

text \<open>Reading the events of a run off the two histories.\<close>

lemma trace_emitted:
  "prefix (trace st) (trace st') \<Longrightarrow> trace st' = trace st @ emitted st st'"
  by (auto simp: prefix_def emitted_def)

lemma writes_emitted:
  assumes "prefix (trace st) (trace st')"
  shows "writes k (emitted st st') = drop (length (writes k (trace st))) (writes k (trace st'))"
proof -
  have "writes k (trace st') = writes k (trace st) @ writes k (emitted st st')"
    using trace_emitted [OF assms] by (metis writes_append)
  then show ?thesis by simp
qed

lemma filter_emitted:
  assumes "prefix (trace st) (trace st')"
  shows "filter P (emitted st st') = drop (length (filter P (trace st))) (filter P (trace st'))"
proof -
  have "filter P (trace st') = filter P (trace st) @ filter P (emitted st st')"
    using trace_emitted [OF assms] by (metis filter_append)
  then show ?thesis by simp
qed

lemmas sample_defs = env_rejected_def env_null_text_def env_exec_fails_def env_m4a_def
  env_no_audio_def env_ok_def body_ok_def body_cb_def st_init_def

lemmas record_defs = run_records_def try_run_def queued_record_def completed_record_def
  failed_record_def empty_obj_def Let_def

text \<open>Replacing the outcome of the callback request changes none of the summaries.\<close>

lemma extract_audio_readdir:
  "filter is_Readdir (trace (snd (extract_audio e jid u st))) =
     filter is_Readdir (trace st) @
       (if execAsync e (ytdlp_command jid u) 300000 = Inr () \<and> \<not> fs_access e (audioPath jid)
        then [Readdir (tempDir jid)] else [])"
  by (simp add: extract_audio_def Let_def split: sum.split option.split)

lemma post_transcribe_fetch:
  "truthy (b_url b) \<Longrightarrow>
   filter is_Fetch (trace (post_transcribe e b st)) =
     filter is_Fetch (trace st) @
       (if truthy (b_callbackUrl b)
        then [Fetch (b_callbackUrl b)
                (last (run_records e (new_jobId e) (b_url b) (queued_record e (b_url b))))]
        else [])"
  by (simp add: post_transcribe_def Let_def processTranscription_fetch queued_record_def)

lemma extract_outcome_fetch [simp]:
  "extract_outcome (e\<lparr>fetch := f\<rparr>) jid u = extract_outcome e jid u"
  by (simp add: extract_outcome_def split: sum.split)

lemma completed_record_fetch [simp]:
  "completed_record (e\<lparr>fetch := f\<rparr>) jid u t = completed_record e jid u t"
  by (simp add: completed_record_def)

lemma failed_record_fetch [simp]:
  "failed_record (e\<lparr>fetch := f\<rparr>) jid u m = failed_record e jid u m"
  by (simp add: failed_record_def)

lemma try_run_fetch [simp]: "try_run (e\<lparr>fetch := f\<rparr>) jid u r = try_run e jid u r"
  by (simp add: try_run_def split: sum.split)

lemma run_records_fetch [simp]: "run_records (e\<lparr>fetch := f\<rparr>) jid u r = run_records e jid u r"
  by (simp add: run_records_def Let_def split: option.split)

lemma new_jobId_fetch [simp]: "new_jobId (e\<lparr>fetch := f\<rparr>) = new_jobId e"
  by (simp add: new_jobId_def)

lemma queued_record_fetch [simp]: "queued_record (e\<lparr>fetch := f\<rparr>) u = queued_record e u"
  by (simp add: queued_record_def)

lemma last_run_records_terminal:
  "status (last (run_records e jid u r)) = Some ''completed'' \<or>
   status (last (run_records e jid u r)) = Some ''failed''"
  by (simp add: run_records_def try_run_def completed_record_def failed_record_def Let_def
      split: sum.split)

text \<open>Timers: after \<open>d\<close> milliseconds a key is gone when one of its timers was due.\<close>

lemma elapse_jobs_foldl:
  "jobs (foldl (\<lambda>s (t, k). if t \<le> d then jobs_delete k s else s) s ts) j =
     (if \<exists>t. (t, j) \<in> set ts \<and> t \<le> d then None else jobs s j)"
  by (induction ts arbitrary: s) auto

lemma elapse_jobs:
  "jobs (elapse d st) j = (if \<exists>t. (t, j) \<in> set (timers st) \<and> t \<le> d then None else jobs st j)"
  by (auto simp add: elapse_def elapse_jobs_foldl)

lemma processTranscription_last:
  "last (trace (processTranscription e jid u cb st)) = SetTimeout (60 * 60 * 1000) jid"
  by (simp add: processTranscription_def Let_def case_prod_beta split: option.split)

lemma new_jobId_env_ok: "new_jobId env_ok = ''job_1700000000000_k3j9x2m1q''"
  by (simp add: new_jobId_def env_ok_def show_nat.simps digit_char_def)

section \<open>The claims\<close>

subsection \<open>C1: the statuses a job goes through\<close>

text \<open>
  C1, as amended. The claim names five statuses and three sequences; the code writes a
  sixth status, \<^verbatim>\<open>processing\<close>, at the start of every pipeline, and a failed
  transcription gives queued, processing, downloading, transcribing, failed, which is a
  subsequence of none of the three even when \<^verbatim>\<open>processing\<close> is left aside. What
  holds: for every accepted request, every status written under the job's id is one of
  the six values queued, processing, downloading, transcribing, completed, failed, and
  no status is written twice; and when the provider result, if it is not an error,
  carries a text, the statuses written are queued, processing and then one of: failed;
  downloading, failed; downloading, transcribing, failed; downloading, transcribing,
  completed.
\<close>

theorem C1_status_sequence:
  assumes "truthy (b_url b)"
  shows "set (map status (writes (new_jobId e) (emitted st (post_transcribe e b st))))
       \<subseteq> {Some ''queued'', Some ''processing'', Some ''downloading'', Some ''transcribing'',
          Some ''completed'', Some ''failed''}
     \<and> distinct (map status (writes (new_jobId e) (emitted st (post_transcribe e b st))))
     \<and> ((\<forall>t. aai_transcribe e (audioPath (new_jobId e)) = Inr t \<longrightarrow> t_status t \<noteq> ''error''
            \<longrightarrow> t_text t \<noteq> JNull \<and> t_text t \<noteq> JUndefined) \<longrightarrow>
        map status (writes (new_jobId e) (emitted st (post_transcribe e b st)))
        \<in> {[Some ''queued'', Some ''processing'', Some ''failed''],
            [Some ''queued'', Some ''processing'', Some ''downloading'', Some ''failed''],
            [Some ''queued'', Some ''processing'', Some ''downloading'', Some ''transcribing'',
             Some ''failed''],
            [Some ''queued'', Some ''processing'', Some ''downloading'', Some ''transcribing'',
             Some ''completed'']})"
proof -
  have p: "prefix (trace st) (trace (post_transcribe e b st))" by simp
  have A: "set (map status (writes (new_jobId e) (emitted st (post_transcribe e b st))))
       \<subseteq> {Some ''queued'', Some ''processing'', Some ''downloading'', Some ''transcribing'',
          Some ''completed'', Some ''failed''}"
    using assms unfolding writes_emitted [OF p]
    by (simp add: post_transcribe_writes record_defs split: sum.split)
  have B: "distinct (map status (writes (new_jobId e) (emitted st (post_transcribe e b st))))"
    using assms unfolding writes_emitted [OF p]
    by (simp add: post_transcribe_writes record_defs split: sum.split)
  have C: "map status (writes (new_jobId e) (emitted st (post_transcribe e b st)))
        \<in> {[Some ''queued'', Some ''processing'', Some ''failed''],
            [Some ''queued'', Some ''processing'', Some ''downloading'', Some ''failed''],
            [Some ''queued'', Some ''processing'', Some ''downloading'', Some ''transcribing'',
             Some ''failed''],
            [Some ''queued'', Some ''processing'', Some ''downloading'', Some ''transcribing'',
             Some ''completed'']}"
    if h: "\<forall>t. aai_transcribe e (audioPath (new_jobId e)) = Inr t \<longrightarrow> t_status t \<noteq> ''error''
            \<longrightarrow> t_text t \<noteq> JNull \<and> t_text t \<noteq> JUndefined"
  proof -
    have "text_length (t_text t) \<noteq> Inl m"
      if "aai_transcribe e (audioPath (new_jobId e)) = Inr t" "t_status t \<noteq> ''error''" for t m
      using that h by (auto simp: text_length_Inl_iff)
    then show ?thesis
      using assms unfolding writes_emitted [OF p]
      by (simp add: post_transcribe_writes record_defs split: sum.split)
  qed
  from A B C show ?thesis by (intro conjI impI)
qed

text \<open>
  The theorem at a run in which every step succeeds, and its first two parts at the
  run in which the provider completes with \<^verbatim>\<open>text: null\<close>.
\<close>

theorem C1_status_sequence_witness:
  "truthy (b_url body_ok)
   \<and> aai_transcribe env_ok (audioPath (new_jobId env_ok))
       = Inr \<lparr>t_status = ''completed'', t_text = JStr ''hello world'', t_error = JUndefined\<rparr>
   \<and> map status (writes (new_jobId env_ok) (emitted st_init (post_transcribe env_ok body_ok st_init)))
     \<in> {[Some ''queued'', Some ''processing'', Some ''failed''],
         [Some ''queued'', Some ''processing'', Some ''downloading'', Some ''failed''],
         [Some ''queued'', Some ''processing'', Some ''downloading'', Some ''transcribing'',
          Some ''failed''],
         [Some ''queued'', Some ''processing'', Some ''downloading'', Some ''transcribing'',
          Some ''completed'']}
   \<and> distinct (map status (writes (new_jobId env_null_text)
         (emitted st_init (post_transcribe env_null_text body_ok st_init))))
   \<and> set (map status (writes (new_jobId env_null_text)
         (emitted st_init (post_transcribe env_null_text body_ok st_init))))
       \<subseteq> {Some ''queued'', Some ''processing'', Some ''downloading'', Some ''transcribing'',
          Some ''completed'', Some ''failed''}"
proof -
  have h1: "truthy (b_url body_ok)"
    by (simp add: body_ok_def)
  have h2: "aai_transcribe env_ok (audioPath (new_jobId env_ok))
       = Inr \<lparr>t_status = ''completed'', t_text = JStr ''hello world'', t_error = JUndefined\<rparr>"
    by (simp add: env_ok_def)
  have h3: "\<forall>t. aai_transcribe env_ok (audioPath (new_jobId env_ok)) = Inr t \<longrightarrow>
      t_status t \<noteq> ''error'' \<longrightarrow> t_text t \<noteq> JNull \<and> t_text t \<noteq> JUndefined"
    by (auto simp add: h2)
  note ok = C1_status_sequence [OF h1, where e = env_ok and st = st_init]
  note nt = C1_status_sequence [OF h1, where e = env_null_text and st = st_init]
  have s: "map status (writes (new_jobId env_ok) (emitted st_init (post_transcribe env_ok body_ok st_init)))
     \<in> {[Some ''queued'', Some ''processing'', Some ''failed''],
         [Some ''queued'', Some ''processing'', Some ''downloading'', Some ''failed''],
         [Some ''queued'', Some ''processing'', Some ''downloading'', Some ''transcribing'',
          Some ''failed''],
         [Some ''queued'', Some ''processing'', Some ''downloading'', Some ''transcribing'',
          Some ''completed'']}"
    using ok [THEN conjunct2, THEN conjunct2] h3 by (rule mp)
  from h1 h2 s nt [THEN conjunct2, THEN conjunct1] nt [THEN conjunct1] show ?thesis
    by (intro conjI)
qed

text \<open>
  C1 as stated fails when the provider call is rejected: \<^verbatim>\<open>processing\<close> is written,
  so the statuses are not among the five, and the statuses other than \<^verbatim>\<open>processing\<close>
  are a subsequence of none of the claim's three sequences.
\<close>

theorem C1_five_statuses_counterexample:
  "map status (writes (new_jobId env_rejected)
     (emitted st_init (post_transcribe env_rejected body_ok st_init)))
    = [Some ''queued'', Some ''processing'', Some ''downloading'', Some ''transcribing'',
       Some ''failed'']
   \<and> \<not> set (map status (writes (new_jobId env_rejected)
            (emitted st_init (post_transcribe env_rejected body_ok st_init))))
        \<subseteq> {Some ''queued'', Some ''downloading'', Some ''transcribing'', Some ''completed'',
           Some ''failed''}
   \<and> \<not> (subseq [Some ''queued'', Some ''downloading'', Some ''transcribing'', Some ''failed'']
            [Some ''queued'', Some ''downloading'', Some ''transcribing'', Some ''completed'']
        \<or> subseq [Some ''queued'', Some ''downloading'', Some ''transcribing'', Some ''failed'']
            [Some ''queued'', Some ''downloading'', Some ''failed'']
        \<or> subseq [Some ''queued'', Some ''downloading'', Some ''transcribing'', Some ''failed'']
            [Some ''queued'', Some ''transcribing'', Some ''failed''])"
proof -
  have p: "prefix (trace st_init) (trace (post_transcribe env_rejected body_ok st_init))" by simp
  have "map status (writes (new_jobId env_rejected)
     (emitted st_init (post_transcribe env_rejected body_ok st_init)))
    = [Some ''queued'', Some ''processing'', Some ''downloading'', Some ''transcribing'',
       Some ''failed'']"
    unfolding writes_emitted [OF p]
    by (simp add: post_transcribe_writes record_defs extract_outcome_def sample_defs)
  then show ?thesis by simp
qed

subsection \<open>C2: transcript and error\<close>

text \<open>
  A field is populated when its key is set to a value other than \<^verbatim>\<open>null\<close> and
  \<^verbatim>\<open>undefined\<close>. When the provider result, if it is not an error, carries a text,
  every record written under the job's id has a populated \<^verbatim>\<open>transcript\<close> and no
  \<^verbatim>\<open>error\<close> if it is completed, an \<^verbatim>\<open>error\<close> message and no
  \<^verbatim>\<open>transcript\<close> if it is failed, and neither otherwise. In every run the record
  left in the registry is completed with a populated transcript and no error, or failed
  with an error message and no transcript.
\<close>

lemma transcript_xor_error_with_text:
  assumes "truthy (b_url b)"
    and "\<forall>t. aai_transcribe e (audioPath (new_jobId e)) = Inr t \<longrightarrow> t_status t \<noteq> ''error''
           \<longrightarrow> t_text t \<noteq> JNull \<and> t_text t \<noteq> JUndefined"
  shows "\<forall>r \<in> set (writes (new_jobId e) (emitted st (post_transcribe e b st))).
            (status r = Some ''completed'' \<longrightarrow>
               (\<exists>v. transcript r = Some v \<and> v \<noteq> JNull \<and> v \<noteq> JUndefined) \<and> error r = None) \<and>
            (status r = Some ''failed'' \<longrightarrow> (\<exists>m. error r = Some m) \<and> transcript r = None) \<and>
            (status r \<noteq> Some ''completed'' \<and> status r \<noteq> Some ''failed'' \<longrightarrow>
               transcript r = None \<and> error r = None)"
proof -
  have p: "prefix (trace st) (trace (post_transcribe e b st))" by simp
  show ?thesis
    using assms unfolding writes_emitted [OF p]
    by (simp add: post_transcribe_writes record_defs split: sum.split)
qed

lemma final_record_transcript_xor_error:
  assumes "truthy (b_url b)"
  shows "\<exists>r. jobs (post_transcribe e b st) (new_jobId e) = Some r \<and>
             (status r = Some ''completed'' \<and> error r = None \<and>
                (\<exists>v. transcript r = Some v \<and> v \<noteq> JNull \<and> v \<noteq> JUndefined)
              \<or> status r = Some ''failed'' \<and> transcript r = None \<and> (\<exists>m. error r = Some m))"
  using assms
  by (auto simp add: post_transcribe_jobs record_defs text_length_Inl_iff split: sum.split)


subsection \<open>C3: timestamps\<close>

text \<open>
  C3, as amended. The claim says that every timestamp, once written, stays in the record
  up to and including the terminal record. The pipeline's updates do copy
  \<^verbatim>\<open>createdAt\<close> and \<^verbatim>\<open>startedAt\<close>, but the terminal record is a new object
  literal (lines 135 and 165, the object that is also the callback payload) that has
  neither. What holds: the queued record has \<^verbatim>\<open>createdAt\<close> only; the processing,
  downloading and transcribing records have the same \<^verbatim>\<open>createdAt\<close> and the
  \<^verbatim>\<open>startedAt\<close> of the pipeline start; a completed record has \<^verbatim>\<open>completedAt\<close>
  only and a failed record \<^verbatim>\<open>failedAt\<close> only.
\<close>

theorem C3_timestamps:
  assumes "truthy (b_url b)"
  shows "\<forall>r \<in> set (writes (new_jobId e) (emitted st (post_transcribe e b st))).
     (status r = Some ''queued'' \<longrightarrow>
        createdAt r = Some (iso_created e) \<and> startedAt r = None \<and>
        completedAt r = None \<and> failedAt r = None) \<and>
     (status r = Some ''processing'' \<or> status r = Some ''downloading'' \<or>
      status r = Some ''transcribing'' \<longrightarrow>
        createdAt r = Some (iso_created e) \<and> startedAt r = Some (iso_started e) \<and>
        completedAt r = None \<and> failedAt r = None) \<and>
     (status r = Some ''completed'' \<longrightarrow>
        createdAt r = None \<and> startedAt r = None \<and>
        completedAt r = Some (iso_completed e) \<and> failedAt r = None) \<and>
     (status r = Some ''failed'' \<longrightarrow>
        createdAt r = None \<and> startedAt r = None \<and>
        completedAt r = None \<and> failedAt r = Some (iso_failed e))"
proof -
  have p: "prefix (trace st) (trace (post_transcribe e b st))" by simp
  show ?thesis
    using assms unfolding writes_emitted [OF p]
    by (simp add: post_transcribe_writes record_defs split: sum.split)
qed

text \<open>The theorem at a run in which every step succeeds.\<close>

theorem C3_timestamps_witness:
  "truthy (b_url body_ok)
   \<and> map createdAt (writes (new_jobId env_ok) (emitted st_init (post_transcribe env_ok body_ok st_init)))
      = [Some (iso_created env_ok), Some (iso_created env_ok), Some (iso_created env_ok),
         Some (iso_created env_ok), None]
   \<and> map startedAt (writes (new_jobId env_ok) (emitted st_init (post_transcribe env_ok body_ok st_init)))
      = [None, Some (iso_started env_ok), Some (iso_started env_ok), Some (iso_started env_ok), None]
   \<and> map completedAt (writes (new_jobId env_ok) (emitted st_init (post_transcribe env_ok body_ok st_init)))
      = [None, None, None, None, Some (iso_completed env_ok)]"
proof -
  have p: "prefix (trace st_init) (trace (post_transcribe env_ok body_ok st_init))" by simp
  show ?thesis
    using C3_timestamps [of body_ok env_ok st_init]
    unfolding writes_emitted [OF p]
    by (simp add: post_transcribe_writes record_defs extract_outcome_def sample_defs)
qed

text \<open>
  C3 as stated fails on that run: the first record written has \<^verbatim>\<open>createdAt\<close>, and
  the record left in the registry has neither \<^verbatim>\<open>createdAt\<close> nor \<^verbatim>\<open>startedAt\<close>.
\<close>

theorem C3_terminal_record_counterexample:
  "createdAt (queued_record env_ok (b_url body_ok)) = Some ''2023-11-14T22:13:20.000Z''
   \<and> hd (writes (new_jobId env_ok) (emitted st_init (post_transcribe env_ok body_ok st_init)))
       = queued_record env_ok (b_url body_ok)
   \<and> (\<exists>r. jobs (post_transcribe env_ok body_ok st_init) (new_jobId env_ok) = Some r
         \<and> status r = Some ''completed'' \<and> createdAt r = None \<and> startedAt r = None)"
proof -
  have p: "prefix (trace st_init) (trace (post_transcribe env_ok body_ok st_init))" by simp
  show ?thesis
    unfolding writes_emitted [OF p]
    by (simp add: post_transcribe_writes post_transcribe_jobs record_defs extract_outcome_def
        sample_defs)
qed

subsection \<open>C4: updating an id that is not in the registry\<close>

text \<open>
  C4, as amended. The claim says that updating an absent id is a no-op that signals an
  error. The code has no update operation of its own, only the idiom
  \<^verbatim>\<open>jobs.set(jobId, {...jobs.get(jobId), ...})\<close>, which cannot fail. What holds: for
  an id that is not in the registry, the idiom signals nothing and creates a record
  under that id that holds the patched keys only.
\<close>

theorem C4_update_absent_creates:
  assumes "jobs st k = None"
  shows "jobs (update_job k patch st) = (jobs st)(k \<mapsto> patch empty_obj)
     \<and> emitted st (update_job k patch st) = [Set k (patch empty_obj)]"
  using assms by (simp add: update_job_def emitted_def)

text \<open>The theorem at the empty registry.\<close>

theorem C4_update_absent_creates_witness:
  "jobs st_init ''job_1700000000000_k3j9x2m1q'' = None
   \<and> jobs (update_job ''job_1700000000000_k3j9x2m1q'' (\<lambda>r. r\<lparr>status := Some ''downloading''\<rparr>) st_init)
      = [''job_1700000000000_k3j9x2m1q'' \<mapsto> empty_obj\<lparr>status := Some ''downloading''\<rparr>]"
  using C4_update_absent_creates [of st_init "''job_1700000000000_k3j9x2m1q''"
      "\<lambda>r. r\<lparr>status := Some ''downloading''\<rparr>"]
  by (simp add: st_init_def)

text \<open>C4 as stated fails there: the registry changes, and the id is now present.\<close>

theorem C4_update_not_noop_counterexample:
  "jobs st_init ''job_1700000000000_k3j9x2m1q'' = None
   \<and> jobs (update_job ''job_1700000000000_k3j9x2m1q'' (\<lambda>r. r\<lparr>status := Some ''downloading''\<rparr>) st_init)
        ''job_1700000000000_k3j9x2m1q''
      = Some (empty_obj\<lparr>status := Some ''downloading''\<rparr>)
   \<and> jobs (update_job ''job_1700000000000_k3j9x2m1q'' (\<lambda>r. r\<lparr>status := Some ''downloading''\<rparr>) st_init)
      \<noteq> jobs st_init"
proof -
  have "jobs (update_job ''job_1700000000000_k3j9x2m1q'' (\<lambda>r. r\<lparr>status := Some ''downloading''\<rparr>) st_init)
        ''job_1700000000000_k3j9x2m1q''
      = Some (empty_obj\<lparr>status := Some ''downloading''\<rparr>)"
    by (simp add: update_job_def st_init_def)
  moreover have "jobs st_init ''job_1700000000000_k3j9x2m1q'' = None"
    by (simp add: st_init_def)
  ultimately show ?thesis by (metis option.distinct(1))
qed

subsection \<open>C5: terminal statuses\<close>

text \<open>
  C5 says that nothing is written after \<^verbatim>\<open>completed\<close>. Line 146 reads
  \<^verbatim>\<open>transcript.text.length\<close> inside the \<^verbatim>\<open>try\<close>, after line 144 has written the
  completed record: when the provider completes with \<^verbatim>\<open>text: null\<close> the read throws,
  and the \<^verbatim>\<open>catch\<close> overwrites the completed record with a failed one.
\<close>

theorem C5_completed_then_failed:
  "map status (writes (new_jobId env_null_text)
     (emitted st_init (post_transcribe env_null_text body_ok st_init)))
    = [Some ''queued'', Some ''processing'', Some ''downloading'', Some ''transcribing'',
       Some ''completed'', Some ''failed'']
   \<and> jobs (post_transcribe env_null_text body_ok st_init) (new_jobId env_null_text)
    = Some (failed_record env_null_text (new_jobId env_null_text) (b_url body_ok)
         ''Cannot read properties of null (reading 'length')'')"
proof -
  have p: "prefix (trace st_init) (trace (post_transcribe env_null_text body_ok st_init))"
    by simp
  have "map status (writes (new_jobId env_null_text)
     (emitted st_init (post_transcribe env_null_text body_ok st_init)))
    = [Some ''queued'', Some ''processing'', Some ''downloading'', Some ''transcribing'',
       Some ''completed'', Some ''failed'']"
    unfolding writes_emitted [OF p]
    by (simp add: post_transcribe_writes record_defs extract_outcome_def sample_defs)
  moreover have "jobs (post_transcribe env_null_text body_ok st_init) (new_jobId env_null_text)
    = Some (failed_record env_null_text (new_jobId env_null_text) (b_url body_ok)
         ''Cannot read properties of null (reading 'length')'')"
    by (simp add: post_transcribe_jobs record_defs extract_outcome_def sample_defs)
  ultimately show ?thesis by simp
qed

subsection \<open>C6: failures of the extraction step\<close>

text \<open>
  C6: a rejection of the download tool (a non-zero exit or the time-out) with message
  \<open>m\<close> is thrown as \<^verbatim>\<open>Download failed: m\<close>. When the tool succeeds and the declared
  path is absent, the scratch directory is read once, and the step fails if and only if
  the listing holds no file ending in \<^verbatim>\<open>.mp3\<close>, \<^verbatim>\<open>.m4a\<close> or \<^verbatim>\<open>.wav\<close>; with a
  listing that has none the message is the fixed text about the audio file. Every
  failure of the step is an \<^verbatim>\<open>Error\<close> with a message, and the job's record becomes
  the failed record carrying that message.
\<close>

theorem C6_download_failed:
  "(\<forall>m. execAsync e (ytdlp_command jid u) 300000 = Inl m \<longrightarrow>
       fst (extract_audio e jid u st) = Inl (''Download failed: '' @ m))
   \<and> (execAsync e (ytdlp_command jid u) 300000 = Inr () \<and> \<not> fs_access e (audioPath jid) \<longrightarrow>
        filter is_Readdir (emitted st (snd (extract_audio e jid u st))) = [Readdir (tempDir jid)]
        \<and> (isl (fst (extract_audio e jid u st)) \<longleftrightarrow>
             \<not> (\<exists>files f. fs_readdir e (tempDir jid) = Inr files \<and> f \<in> set files \<and>
                  (endsWith f ''.mp3'' \<or> endsWith f ''.m4a'' \<or> endsWith f ''.wav'')))
        \<and> (\<forall>files. fs_readdir e (tempDir jid) = Inr files \<longrightarrow>
              \<not> (\<exists>f \<in> set files. endsWith f ''.mp3'' \<or> endsWith f ''.m4a'' \<or> endsWith f ''.wav'') \<longrightarrow>
              fst (extract_audio e jid u st) =
                Inl ''Audio file was not created. Video may be private or unavailable.''))
   \<and> (\<forall>m. fs_mkdir e (tempDir jid) = Inr () \<longrightarrow> fst (extract_audio e jid u st) = Inl m \<longrightarrow>
        jobs (processTranscription e jid u cb st) jid = Some (failed_record e jid u m))"
proof -
  have p: "prefix (trace st) (trace (snd (extract_audio e jid u st)))" by simp
  have A: "\<forall>m. execAsync e (ytdlp_command jid u) 300000 = Inl m \<longrightarrow>
       fst (extract_audio e jid u st) = Inl (''Download failed: '' @ m)"
    by (simp add: extract_outcome_def)
  have B: "execAsync e (ytdlp_command jid u) 300000 = Inr () \<and> \<not> fs_access e (audioPath jid) \<longrightarrow>
        filter is_Readdir (emitted st (snd (extract_audio e jid u st))) = [Readdir (tempDir jid)]
        \<and> (isl (fst (extract_audio e jid u st)) \<longleftrightarrow>
             \<not> (\<exists>files f. fs_readdir e (tempDir jid) = Inr files \<and> f \<in> set files \<and>
                  (endsWith f ''.mp3'' \<or> endsWith f ''.m4a'' \<or> endsWith f ''.wav'')))
        \<and> (\<forall>files. fs_readdir e (tempDir jid) = Inr files \<longrightarrow>
              \<not> (\<exists>f \<in> set files. endsWith f ''.mp3'' \<or> endsWith f ''.m4a'' \<or> endsWith f ''.wav'') \<longrightarrow>
              fst (extract_audio e jid u st) =
                Inl ''Audio file was not created. Video may be private or unavailable.'')"
    unfolding filter_emitted [OF p]
    by (auto simp add: extract_audio_readdir extract_outcome_def is_audio_def split: sum.split)
  have C: "\<forall>m. fs_mkdir e (tempDir jid) = Inr () \<longrightarrow> fst (extract_audio e jid u st) = Inl m \<longrightarrow>
        jobs (processTranscription e jid u cb st) jid = Some (failed_record e jid u m)"
    by (simp add: processTranscription_jobs run_records_def try_run_def Let_def)
  from A B C show ?thesis by blast
qed

text \<open>
  The theorem at a failing tool, at a tool that wrote \<^verbatim>\<open>audio.m4a\<close>, and at a tool
  that left no audio file.
\<close>

theorem C6_download_failed_witness:
  "execAsync env_exec_fails (ytdlp_command (new_jobId env_ok) (b_url body_ok)) 300000
      = Inl ''Command failed: yt-dlp exited with code 1''
   \<and> fst (extract_audio env_exec_fails (new_jobId env_ok) (b_url body_ok) st_init)
      = Inl ''Download failed: Command failed: yt-dlp exited with code 1''
   \<and> \<not> fs_access env_m4a (audioPath (new_jobId env_ok))
   \<and> filter is_Readdir (emitted st_init
         (snd (extract_audio env_m4a (new_jobId env_ok) (b_url body_ok) st_init)))
      = [Readdir (tempDir (new_jobId env_ok))]
   \<and> \<not> isl (fst (extract_audio env_m4a (new_jobId env_ok) (b_url body_ok) st_init))
   \<and> fs_readdir env_no_audio (tempDir (new_jobId env_ok)) = Inr [''video.webm'']
   \<and> fst (extract_audio env_no_audio (new_jobId env_ok) (b_url body_ok) st_init)
      = Inl ''Audio file was not created. Video may be private or unavailable.''
   \<and> jobs (processTranscription env_no_audio (new_jobId env_ok) (b_url body_ok) JUndefined st_init)
        (new_jobId env_ok)
      = Some (failed_record env_no_audio (new_jobId env_ok) (b_url body_ok)
          ''Audio file was not created. Video may be private or unavailable.'')"
  using
    C6_download_failed [where e = env_exec_fails and jid = "new_jobId env_ok"
      and u = "b_url body_ok" and st = st_init and cb = JUndefined]
    C6_download_failed [where e = env_m4a and jid = "new_jobId env_ok"
      and u = "b_url body_ok" and st = st_init and cb = JUndefined]
    C6_download_failed [where e = env_no_audio and jid = "new_jobId env_ok"
      and u = "b_url body_ok" and st = st_init and cb = JUndefined]
  by (simp add: sample_defs endsWith_def)

subsection \<open>C7: the path given to the transcription step\<close>

text \<open>
  C7: when the declared path \<^verbatim>\<open>audio.mp3\<close> is absent and the scan finds a file with
  an accepted extension, the pipeline calls the transcription once, with the declared
  path under the scratch directory, whatever file the scan found.
\<close>

theorem C7_transcribes_declared_path:
  assumes "fs_mkdir e (tempDir jid) = Inr ()"
    and "execAsync e (ytdlp_command jid u) 300000 = Inr ()"
    and "\<not> fs_access e (audioPath jid)"
    and "fs_readdir e (tempDir jid) = Inr files"
    and "find is_audio files = Some f"
  shows "filter is_Transcribe (emitted st (processTranscription e jid u cb st))
           = [Transcribe (''/tmp/transcribe_'' @ jid @ ''/audio.mp3'')]"
proof -
  have p: "prefix (trace st) (trace (processTranscription e jid u cb st))" by simp
  have "\<exists>x \<in> set files. is_audio x"
    using assms(5) find_Some_ex [of is_audio files] by simp
  then have "extract_outcome e jid u = Inr ()"
    using assms by (simp add: extract_outcome_def)
  then show ?thesis
    using assms(1) unfolding filter_emitted [OF p]
    by (simp add: processTranscription_transcribe audioPath_def path_join_def tempDir_def)
qed

text \<open>The theorem at a tool that wrote \<^verbatim>\<open>audio.m4a\<close>.\<close>

theorem C7_transcribes_declared_path_witness:
  "fs_mkdir env_m4a (tempDir (new_jobId env_ok)) = Inr ()
   \<and> execAsync env_m4a (ytdlp_command (new_jobId env_ok) (b_url body_ok)) 300000 = Inr ()
   \<and> \<not> fs_access env_m4a (audioPath (new_jobId env_ok))
   \<and> fs_readdir env_m4a (tempDir (new_jobId env_ok)) = Inr [''audio.m4a'']
   \<and> find is_audio [''audio.m4a''] = Some ''audio.m4a''
   \<and> filter is_Transcribe
        (emitted st_init
           (processTranscription env_m4a (new_jobId env_ok) (b_url body_ok) JUndefined st_init))
      = [Transcribe ''/tmp/transcribe_job_1700000000000_k3j9x2m1q/audio.mp3'']"
proof -
  have h: "fs_mkdir env_m4a (tempDir (new_jobId env_ok)) = Inr ()"
    "execAsync env_m4a (ytdlp_command (new_jobId env_ok) (b_url body_ok)) 300000 = Inr ()"
    "\<not> fs_access env_m4a (audioPath (new_jobId env_ok))"
    "fs_readdir env_m4a (tempDir (new_jobId env_ok)) = Inr [''audio.m4a'']"
    "find is_audio [''audio.m4a''] = Some ''audio.m4a''"
    by (simp_all add: env_m4a_def env_ok_def is_audio_def endsWith_def)
  show ?thesis
    using h C7_transcribes_declared_path [OF h, where cb = JUndefined and st = st_init]
    by (simp add: new_jobId_env_ok)
qed

subsection \<open>C8: a failing callback\<close>

text \<open>
  C8: for a request with a url and a callbackUrl, the registry, the answer to a status
  query and the records written are the same whatever the callback request does; the
  callback is requested exactly once, with the terminal record that is in the registry.
\<close>

theorem C8_callback_failure_invisible:
  assumes "truthy (b_url b)" and "truthy (b_callbackUrl b)"
  shows "jobs (post_transcribe (e\<lparr>fetch := f\<rparr>) b st) = jobs (post_transcribe e b st)
    \<and> get_job (post_transcribe (e\<lparr>fetch := f\<rparr>) b st) k = get_job (post_transcribe e b st) k
    \<and> writes k (emitted st (post_transcribe (e\<lparr>fetch := f\<rparr>) b st))
        = writes k (emitted st (post_transcribe e b st))
    \<and> (\<exists>r. filter is_Fetch (emitted st (post_transcribe e b st)) = [Fetch (b_callbackUrl b) r]
          \<and> jobs (post_transcribe e b st) (new_jobId e) = Some r
          \<and> (status r = Some ''completed'' \<or> status r = Some ''failed''))"
proof -
  have p: "prefix (trace st) (trace (post_transcribe e' b st))" for e' by simp
  have A: "jobs (post_transcribe (e\<lparr>fetch := f\<rparr>) b st) = jobs (post_transcribe e b st)"
    using assms by (simp add: post_transcribe_jobs)
  then have B: "get_job (post_transcribe (e\<lparr>fetch := f\<rparr>) b st) k = get_job (post_transcribe e b st) k"
    by (simp add: get_job_def)
  have C: "writes k (emitted st (post_transcribe (e\<lparr>fetch := f\<rparr>) b st))
        = writes k (emitted st (post_transcribe e b st))"
    using assms unfolding writes_emitted [OF p] by (simp add: post_transcribe_writes)
  have D: "\<exists>r. filter is_Fetch (emitted st (post_transcribe e b st)) = [Fetch (b_callbackUrl b) r]
          \<and> jobs (post_transcribe e b st) (new_jobId e) = Some r
          \<and> (status r = Some ''completed'' \<or> status r = Some ''failed'')"
    using assms last_run_records_terminal unfolding filter_emitted [OF p]
    by (simp add: post_transcribe_fetch post_transcribe_jobs)
  from A B C D show ?thesis by blast
qed

text \<open>The theorem at a callback request that is rejected.\<close>

theorem C8_callback_failure_invisible_witness:
  "truthy (b_url body_cb) \<and> truthy (b_callbackUrl body_cb)
   \<and> fetch (env_ok\<lparr>fetch := (\<lambda>_ _. Inl ''fetch failed'')\<rparr>) (b_callbackUrl body_cb)
        (completed_record env_ok (new_jobId env_ok) (b_url body_cb)
           \<lparr>t_status = ''completed'', t_text = JStr ''hello world'', t_error = JUndefined\<rparr>)
      = Inl ''fetch failed''
   \<and> get_job (post_transcribe (env_ok\<lparr>fetch := (\<lambda>_ _. Inl ''fetch failed'')\<rparr>) body_cb st_init)
        (new_jobId env_ok)
      = Resp 200 (JobBody (completed_record env_ok (new_jobId env_ok) (b_url body_cb)
           \<lparr>t_status = ''completed'', t_text = JStr ''hello world'', t_error = JUndefined\<rparr>))"
proof -
  have h: "truthy (b_url body_cb)" "truthy (b_callbackUrl body_cb)"
    by (simp_all add: body_cb_def)
  have "get_job (post_transcribe env_ok body_cb st_init) (new_jobId env_ok)
      = Resp 200 (JobBody (completed_record env_ok (new_jobId env_ok) (b_url body_cb)
           \<lparr>t_status = ''completed'', t_text = JStr ''hello world'', t_error = JUndefined\<rparr>))"
    using h(1)
    by (simp add: get_job_def post_transcribe_jobs run_records_def try_run_def Let_def
        extract_outcome_def env_ok_def)
  then show ?thesis
    using h C8_callback_failure_invisible [OF h, where e = env_ok
        and f = "\<lambda>_ _. Inl ''fetch failed''" and st = st_init and k = "new_jobId env_ok"]
    by simp
qed

subsection \<open>C9: a request without a url\<close>

text \<open>
  C9: when the body's \<^verbatim>\<open>url\<close> is missing or empty (or any other falsy value), the
  handler answers 400 and does nothing else: the response is the only event, so no
  record is written and no pipeline step runs, and the registry and the timers are
  unchanged.
\<close>

theorem C9_missing_url_rejected:
  assumes "\<not> truthy (b_url b)"
  shows "emitted st (post_transcribe e b st) = [Respond (Resp 400 (ErrorBody ''URL required''))]
    \<and> jobs (post_transcribe e b st) = jobs st
    \<and> timers (post_transcribe e b st) = timers st"
  using assms by (simp add: post_transcribe_def emitted_def)

text \<open>The theorem at a request whose url is the empty string.\<close>

theorem C9_missing_url_rejected_witness:
  "\<not> truthy (b_url \<lparr>b_url = JStr '''', b_callbackUrl = JStr ''https://example.com/hook''\<rparr>)
   \<and> emitted st_init
        (post_transcribe env_ok \<lparr>b_url = JStr '''', b_callbackUrl = JStr ''https://example.com/hook''\<rparr> st_init)
      = [Respond (Resp 400 (ErrorBody ''URL required''))]
   \<and> jobs (post_transcribe env_ok \<lparr>b_url = JStr '''', b_callbackUrl = JStr ''https://example.com/hook''\<rparr> st_init)
      = Map.empty"
  using C9_missing_url_rejected [of "\<lparr>b_url = JStr '''', b_callbackUrl = JStr ''https://example.com/hook''\<rparr>" st_init env_ok]
  by (simp add: st_init_def)

subsection \<open>C10: eviction\<close>

text \<open>
  C10: whatever the outcome, the last thing the pipeline does is set a timer of
  3600000 milliseconds that deletes the job's record. Once that much time has passed a
  status query for the id answers 404; before that, unless an older timer for the same
  id is pending, the record is still there.
\<close>

theorem C10_eviction_after_one_hour:
  "timers (processTranscription e jid u cb st) = timers st @ [(3600000, jid)]
   \<and> last (trace (processTranscription e jid u cb st)) = SetTimeout 3600000 jid
   \<and> (\<forall>d. 3600000 \<le> d \<longrightarrow>
        get_job (elapse d (processTranscription e jid u cb st)) jid
          = Resp 404 (ErrorBody ''Job not found''))
   \<and> (\<forall>d. d < 3600000 \<longrightarrow> jid \<notin> snd ` set (timers st) \<longrightarrow>
        jobs (elapse d (processTranscription e jid u cb st)) jid
          = jobs (processTranscription e jid u cb st) jid
        \<and> jobs (processTranscription e jid u cb st) jid \<noteq> None)"
proof -
  have A: "timers (processTranscription e jid u cb st) = timers st @ [(3600000, jid)]"
    by (simp add: processTranscription_timers)
  have B: "last (trace (processTranscription e jid u cb st)) = SetTimeout 3600000 jid"
    by (simp add: processTranscription_last)
  have C: "get_job (elapse d (processTranscription e jid u cb st)) jid
          = Resp 404 (ErrorBody ''Job not found'')" if "3600000 \<le> d" for d
    using that by (auto simp add: get_job_def elapse_jobs A)
  have D: "jobs (elapse d (processTranscription e jid u cb st)) jid
          = jobs (processTranscription e jid u cb st) jid
        \<and> jobs (processTranscription e jid u cb st) jid \<noteq> None"
    if "d < 3600000" "jid \<notin> snd ` set (timers st)" for d
    using that by (force simp add: elapse_jobs A processTranscription_jobs)
  from A B C D show ?thesis by blast
qed


text \<open>The theorem one hour, and one millisecond less, after a successful run.\<close>

theorem C10_eviction_after_one_hour_witness:
  "(3600000::nat) \<le> 3600000
   \<and> get_job (elapse 3600000
        (processTranscription env_ok (new_jobId env_ok) (b_url body_ok) JUndefined st_init))
        (new_jobId env_ok)
      = Resp 404 (ErrorBody ''Job not found'')
   \<and> (3599999::nat) < 3600000
   \<and> new_jobId env_ok \<notin> snd ` set (timers st_init)
   \<and> jobs (elapse 3599999
        (processTranscription env_ok (new_jobId env_ok) (b_url body_ok) JUndefined st_init))
        (new_jobId env_ok) \<noteq> None"
proof -
  note T = C10_eviction_after_one_hour [where e = env_ok and jid = "new_jobId env_ok"
      and u = "b_url body_ok" and cb = JUndefined and st = st_init]
  have a: "get_job (elapse 3600000
        (processTranscription env_ok (new_jobId env_ok) (b_url body_ok) JUndefined st_init))
        (new_jobId env_ok)
      = Resp 404 (ErrorBody ''Job not found'')"
    using T by simp
  have b: "new_jobId env_ok \<notin> snd ` set (timers st_init)"
    by (simp add: st_init_def)
  have c: "(3599999::nat) < 3600000" by simp
  have "jobs (elapse 3599999
        (processTranscription env_ok (new_jobId env_ok) (b_url body_ok) JUndefined st_init))
        (new_jobId env_ok) \<noteq> None"
    using T b c by metis
  with a b show ?thesis by simp
qed

end
